theory Spec2Isabelle
  imports Complex_Main "HOL-Library.Word"
begin

section \<open>Machine types\<close>

text \<open>
  The C \<^verbatim>\<open>int\<close> of the sources is a 32-bit two's-complement word, \<^verbatim>\<open>long\<close> the
  64-bit word of an LP64 Linux. Addition and subtraction on \<^verbatim>\<open>int\<close> are the word
  operations (they wrap around); \<open>sint\<close> reads the signed value.
\<close>

type_synonym c_int = "32 word"
type_synonym c_long = "64 word"

section \<open>Icon path resolver (\<^verbatim>\<open>src/icon_loader.c\<close>)\<close>

subsection \<open>Pointers and the C heap of strings\<close>

text \<open>
  The resolver's result is a \<^verbatim>\<open>char*\<close> obtained from \<^verbatim>\<open>strdup\<close> and given back with
  \<^verbatim>\<open>free\<close>. The heap is the list of live blocks, each an address with the string it
  holds. A pointer is \<open>None\<close> for \<^verbatim>\<open>NULL\<close> and \<open>Some a\<close> for the address \<open>a\<close>.
  The allocator hands out the address after the highest live one, so an address is taken
  again once its block has been freed.
  \<^verbatim>\<open>free(NULL)\<close> does nothing (C11 7.22.3.3); \<^verbatim>\<open>free\<close> of an address that is not
  live is undefined behaviour, the value \<open>None\<close> here.

  A library call that is handed \<^verbatim>\<open>NULL\<close>, or a pointer to an object that is no longer
  live, where it needs an object is a crash: a \<open>fault\<close>. A \<^verbatim>\<open>const char*\<close> points
  either to a block of the heap or to the file name that a looked-up icon info owns,
  which lives as long as that info.
\<close>

type_synonym addr = nat
type_synonym char_ptr = "addr option"
type_synonym heap = "(addr \<times> string) list"

datatype fault = Null_pointer | Dangling_pointer

datatype cstring_ptr = Heap_string addr | Info_filename addr

definition heap_fresh :: "(addr \<times> 'a) list \<Rightarrow> addr" where
  "heap_fresh h = Suc (foldr max (map fst h) 0)"

definition free :: "heap \<Rightarrow> char_ptr \<Rightarrow> heap option" where
  "free h p =
     (case p of
        None \<Rightarrow> Some h
      | Some a \<Rightarrow>
          if a \<in> fst ` set h then Some (filter (\<lambda>b. fst b \<noteq> a) h) else None)"

text \<open>The string a pointer designates, if the pointer is live.\<close>

definition deref :: "heap \<Rightarrow> addr \<Rightarrow> string option" where
  "deref h a = map_of h a"

subsection \<open>The icon theme\<close>

text \<open>
  An icon info has a file name, or none (\<^verbatim>\<open>gtk_icon_info_get_filename\<close> then yields
  \<^verbatim>\<open>NULL\<close>). The theme, looked up with the flag \<^verbatim>\<open>GTK_ICON_LOOKUP_FORCE_SIZE\<close>, is
  a function of the icon name and the size that yields the icon's info or nothing.

  The world of the resolver: the default theme (\<open>None\<close> when
  \<^verbatim>\<open>gtk_icon_theme_get_default\<close> yields \<^verbatim>\<open>NULL\<close>); whether the C library can allocate
  a block for a string in a heap (\<^verbatim>\<open>strdup\<close> yields \<^verbatim>\<open>NULL\<close> when it cannot); the
  heap; and the icon infos the process holds a reference to, by address. A successful
  lookup hands the caller one reference to a new info; \<^verbatim>\<open>g_object_unref\<close> gives it
  back, after which the info and its file name are no longer live.
\<close>

record gtk_icon_info =
  filename :: "string option"

type_synonym gtk_icon_theme = "string \<Rightarrow> c_int \<Rightarrow> gtk_icon_info option"

record icon_world =
  default_theme :: "gtk_icon_theme option"
  alloc_ok :: "heap \<Rightarrow> string \<Rightarrow> bool"
  strings :: heap
  infos :: "(addr \<times> gtk_icon_info) list"

definition gtk_icon_theme_get_default :: "icon_world \<Rightarrow> gtk_icon_theme option" where
  "gtk_icon_theme_get_default w = default_theme w"

definition gtk_icon_theme_lookup_icon ::
  "gtk_icon_theme option \<Rightarrow> string \<Rightarrow> c_int \<Rightarrow> icon_world \<Rightarrow>
     fault + (addr option \<times> icon_world)" where
  "gtk_icon_theme_lookup_icon theme icon_name sz w =
     (case theme of
        None \<Rightarrow> Inl Null_pointer
      | Some t \<Rightarrow>
          (case t icon_name sz of
             None \<Rightarrow> Inr (None, w)
           | Some info \<Rightarrow>
               Inr (Some (heap_fresh (infos w)),
                    w\<lparr>infos := (heap_fresh (infos w), info) # infos w\<rparr>)))"

definition gtk_icon_info_get_filename ::
  "addr option \<Rightarrow> icon_world \<Rightarrow> fault + cstring_ptr option" where
  "gtk_icon_info_get_filename info w =
     (case info of
        None \<Rightarrow> Inl Null_pointer
      | Some a \<Rightarrow>
          (case map_of (infos w) a of
             None \<Rightarrow> Inl Dangling_pointer
           | Some i \<Rightarrow>
               (case filename i of
                  None \<Rightarrow> Inr None
                | Some s \<Rightarrow> Inr (Some (Info_filename a)))))"

definition g_object_unref :: "addr option \<Rightarrow> icon_world \<Rightarrow> fault + icon_world" where
  "g_object_unref info w =
     (case info of
        None \<Rightarrow> Inl Null_pointer
      | Some a \<Rightarrow>
          if a \<in> fst ` set (infos w)
          then Inr (w\<lparr>infos := filter (\<lambda>b. fst b \<noteq> a) (infos w)\<rparr>)
          else Inl Dangling_pointer)"

text \<open>
  Reading the string at a \<^verbatim>\<open>const char*\<close>, and \<^verbatim>\<open>strdup\<close>: it reads the string and
  yields a new block holding a copy, or \<^verbatim>\<open>NULL\<close> when the block cannot be allocated.
\<close>

definition read_string :: "icon_world \<Rightarrow> cstring_ptr \<Rightarrow> fault + string" where
  "read_string w p =
     (case p of
        Heap_string a \<Rightarrow>
          (case map_of (strings w) a of None \<Rightarrow> Inl Dangling_pointer | Some s \<Rightarrow> Inr s)
      | Info_filename a \<Rightarrow>
          (case map_of (infos w) a of
             None \<Rightarrow> Inl Dangling_pointer
           | Some i \<Rightarrow>
               (case filename i of None \<Rightarrow> Inl Dangling_pointer | Some s \<Rightarrow> Inr s)))"

definition strdup :: "cstring_ptr option \<Rightarrow> icon_world \<Rightarrow> fault + (char_ptr \<times> icon_world)" where
  "strdup p w =
     (case p of
        None \<Rightarrow> Inl Null_pointer
      | Some q \<Rightarrow>
          (case read_string w q of
             Inl f \<Rightarrow> Inl f
           | Inr s \<Rightarrow>
               if alloc_ok w (strings w) s
               then Inr (Some (heap_fresh (strings w)),
                         w\<lparr>strings := (heap_fresh (strings w), s) # strings w\<rparr>)
               else Inr (None, w)))"

subsection \<open>\<^verbatim>\<open>get_icon_path\<close> and \<^verbatim>\<open>free_icon_path\<close>\<close>

text \<open>The result is a fault, or the returned pointer and the world.\<close>

definition get_icon_path ::
  "icon_world \<Rightarrow> string \<Rightarrow> c_int \<Rightarrow> fault + (char_ptr \<times> icon_world)" where
  "get_icon_path w icon_name sz =
     (let theme = gtk_icon_theme_get_default w
      in if theme = None then Inr (None, w)
         else
           (case gtk_icon_theme_lookup_icon theme icon_name sz w of
              Inl f \<Rightarrow> Inl f
            | Inr (info, w1) \<Rightarrow>
                if info = None then Inr (None, w1)
                else
                  (case gtk_icon_info_get_filename info w1 of
                     Inl f \<Rightarrow> Inl f
                   | Inr path \<Rightarrow>
                       (case (if path \<noteq> None then strdup path w1 else Inr (None, w1)) of
                          Inl f \<Rightarrow> Inl f
                        | Inr (result, w2) \<Rightarrow>
                            (case g_object_unref info w2 of
                               Inl f \<Rightarrow> Inl f
                             | Inr w3 \<Rightarrow> Inr (result, w3))))))"

definition free_icon_path :: "icon_world \<Rightarrow> char_ptr \<Rightarrow> icon_world option" where
  "free_icon_path w path =
     (case free (strings w) path of
        None \<Rightarrow> None
      | Some h \<Rightarrow> Some (w\<lparr>strings := h\<rparr>))"

section \<open>Window staging controller (\<^verbatim>\<open>linux/runner/my_application.cc\<close>)\<close>

subsection \<open>Data\<close>

text \<open>
  The fields of \<^verbatim>\<open>struct _MyApplication\<close>. The argument vector is \<open>None\<close> while the
  pointer is \<^verbatim>\<open>NULL\<close>.
\<close>

record my_application =
  dart_entrypoint_arguments :: "string list option"
  window_height :: c_int
  window_width :: c_int
  bottom_margin :: c_int

record gdk_rectangle =
  rect_x :: c_int
  rect_y :: c_int
  rect_width :: c_int
  rect_height :: c_int

record gdk_monitor =
  geometry :: gdk_rectangle
  scale_factor :: c_int

subsection \<open>Conversions between \<^verbatim>\<open>int\<close> and \<^verbatim>\<open>double\<close>\<close>

text \<open>
  \<^verbatim>\<open>double scale_factor = gdk_monitor_get_scale_factor(monitor)\<close> converts an \<^verbatim>\<open>int\<close>,
  and \<^verbatim>\<open>int window_height = 60 * scale_factor\<close> multiplies in \<^verbatim>\<open>double\<close> and converts
  back. Every 32-bit integer is a \<^verbatim>\<open>double\<close>, and so are its products with 60 and 4
  (integers below \<open>2 ^ 53\<close> in magnitude), so these values are the real numbers
  themselves and no rounding takes place in the multiplication. The conversion to
  \<^verbatim>\<open>int\<close> discards the fractional part (truncation towards zero) and is undefined when
  the integral part is not an \<^verbatim>\<open>int\<close> (C11 6.3.1.4): the value \<open>None\<close>.
\<close>

definition double_of_int :: "c_int \<Rightarrow> real" where
  "double_of_int i = real_of_int (sint i)"

definition int_of_double :: "real \<Rightarrow> c_int option" where
  "int_of_double d =
     (let t = (if 0 \<le> d then \<lfloor>d\<rfloor> else \<lceil>d\<rceil>)
      in if - (2 ^ 31) \<le> t \<and> t < 2 ^ 31 then Some (word_of_int t) else None)"

subsection \<open>The toolkit and the X server\<close>

text \<open>
  Widgets are numbered in the order of their creation. The program has one callback.
  The data of an X property is a list of atoms (by name) or of 32-bit-format cardinals,
  which Xlib takes as an array of \<^verbatim>\<open>long\<close>.
\<close>

type_synonym widget = nat

datatype callback = First_frame_cb

datatype xdata = Atoms "string list" | Cardinals "c_long list"

text \<open>The calls the program makes that act on the toolkit, the runtime or the X server.\<close>

datatype call =
    Gtk_application_window_new widget
  | Gtk_widget_set_app_paintable widget bool
  | Gtk_widget_set_visual widget
  | Gtk_window_set_default_size widget c_int c_int
  | Gtk_widget_set_size_request widget c_int c_int
  | Gtk_window_set_decorated widget bool
  | Gtk_window_stick widget
  | Gtk_window_set_keep_above widget bool
  | Gtk_window_set_type_hint_dock widget
  | Gtk_widget_realize widget
  | Gtk_window_move widget c_int c_int
  | Fl_view_new widget "string list option"
  | Fl_view_set_background_color widget string
  | Gtk_widget_show widget
  | Gtk_container_add widget widget
  | G_signal_connect_swapped widget string callback
  | Fl_register_plugins widget
  | Gtk_widget_grab_focus widget
  | XChangeProperty widget string string nat xdata
  | XSetInputFocus_None
  | XFlush
  | G_application_register bool
  | G_warning string

text \<open>
  The world of the window controller. Its first four fields are what the platform
  answers and never change: the primary monitor (\<open>None\<close> when the display has none),
  whether the screen has an RGBA visual, whether the build has the X11 backend and the
  window is an X11 window, and whether registering the application succeeds. The others
  are the state the calls act on: the next widget number, the container each widget is
  in, the handlers connected to signals, the properties of the X windows, and the log
  of the calls in the order they were made.
\<close>

record world =
  primary_monitor :: "gdk_monitor option"
  rgba_visual :: bool
  x11_window :: bool
  register_ok :: bool
  next_widget :: nat
  parent :: "widget \<Rightarrow> widget option"
  handlers :: "(widget \<times> string \<times> callback) list"
  xprops :: "widget \<times> string \<Rightarrow> xdata option"
  calls :: "call list"

definition do_call :: "call \<Rightarrow> world \<Rightarrow> world" where
  "do_call c w = w\<lparr>calls := calls w @ [c]\<rparr>"

text \<open>A new widget is in no container.\<close>

definition new_widget :: "world \<Rightarrow> widget \<times> world" where
  "new_widget w =
     (next_widget w,
      w\<lparr>next_widget := Suc (next_widget w), parent := (parent w)(next_widget w := None)\<rparr>)"

definition gtk_application_window_new :: "world \<Rightarrow> widget \<times> world" where
  "gtk_application_window_new w =
     (case new_widget w of (i, w') \<Rightarrow> (i, do_call (Gtk_application_window_new i) w'))"

definition fl_view_new :: "string list option \<Rightarrow> world \<Rightarrow> widget \<times> world" where
  "fl_view_new args w =
     (case new_widget w of (i, w') \<Rightarrow> (i, do_call (Fl_view_new i args) w'))"

definition gtk_container_add :: "widget \<Rightarrow> widget \<Rightarrow> world \<Rightarrow> world" where
  "gtk_container_add container child w =
     do_call (Gtk_container_add container child) (w\<lparr>parent := (parent w)(child \<mapsto> container)\<rparr>)"

text \<open>
  \<^verbatim>\<open>gtk_widget_get_toplevel\<close> goes up the containers until a widget that is in none;
  there are \<open>next_widget w\<close> widgets, so that many steps are enough.
\<close>

fun climb :: "nat \<Rightarrow> (widget \<Rightarrow> widget option) \<Rightarrow> widget \<Rightarrow> widget" where
  "climb 0 p v = v"
| "climb (Suc n) p v = (case p v of None \<Rightarrow> v | Some u \<Rightarrow> climb n p u)"

definition gtk_widget_get_toplevel :: "world \<Rightarrow> widget \<Rightarrow> widget" where
  "gtk_widget_get_toplevel w v = climb (next_widget w) (parent w) v"

text \<open>
  A handler connected to a signal stays connected until it is disconnected, which this
  program never does.
\<close>

definition g_signal_connect_swapped :: "widget \<Rightarrow> string \<Rightarrow> callback \<Rightarrow> world \<Rightarrow> world" where
  "g_signal_connect_swapped inst signal cb w =
     do_call (G_signal_connect_swapped inst signal cb)
       (w\<lparr>handlers := handlers w @ [(inst, signal, cb)]\<rparr>)"

text \<open>
  \<^verbatim>\<open>XChangeProperty\<close> in mode \<^verbatim>\<open>PropModeReplace\<close> sets the property of the window to
  the first \<open>n\<close> elements of the data.
\<close>

fun take_xdata :: "nat \<Rightarrow> xdata \<Rightarrow> xdata" where
  "take_xdata n (Atoms xs) = Atoms (take n xs)"
| "take_xdata n (Cardinals xs) = Cardinals (take n xs)"

definition xchange_property ::
  "widget \<Rightarrow> string \<Rightarrow> string \<Rightarrow> nat \<Rightarrow> xdata \<Rightarrow> nat \<Rightarrow> world \<Rightarrow> world" where
  "xchange_property xid property type format data n w =
     do_call (XChangeProperty xid property type format (take_xdata n data))
       (w\<lparr>xprops := (xprops w)((xid, property) \<mapsto> take_xdata n data)\<rparr>)"

subsection \<open>\<^verbatim>\<open>first_frame_cb\<close>\<close>

text \<open>
  The array \<^verbatim>\<open>long strut[12] = {0}\<close> after the three assignments. The sum is an
  \<^verbatim>\<open>int\<close> sum, converted to \<^verbatim>\<open>long\<close> by sign extension.
\<close>

definition strut :: "my_application \<Rightarrow> c_long list" where
  "strut self =
     (replicate 12 0)
       [3 := scast (window_height self + bottom_margin self),
        10 := 0,
        11 := scast (window_width self)]"

definition first_frame_cb :: "my_application \<Rightarrow> widget \<Rightarrow> world \<Rightarrow> world" where
  "first_frame_cb self view w =
     (let window_widget = gtk_widget_get_toplevel w view;
          w1 = do_call (Gtk_widget_show window_widget) w
      in if x11_window w1 then
           let xid = window_widget;
               states = Atoms [''_NET_WM_STATE_STICKY'', ''_NET_WM_STATE_ABOVE''];
               w2 = xchange_property xid ''_NET_WM_STATE'' ''ATOM'' 32 states 2 w1;
               w3 = xchange_property xid ''_NET_WM_STRUT_PARTIAL'' ''CARDINAL'' 32
                      (Cardinals (strut self)) 12 w2;
               w4 = xchange_property xid ''_NET_WM_STRUT'' ''CARDINAL'' 32
                      (Cardinals (strut self)) 4 w3;
               w5 = do_call XSetInputFocus_None w4
           in do_call XFlush w5
         else w1)"

subsection \<open>\<^verbatim>\<open>my_application_activate\<close>\<close>

text \<open>
  The result is \<open>None\<close> where the C is undefined: when the display has no primary
  monitor (the rectangle is then read uninitialised) and when a product with the scale
  factor is not an \<^verbatim>\<open>int\<close>.
\<close>

definition my_application_activate ::
  "my_application \<Rightarrow> world \<Rightarrow> (my_application \<times> world) option" where
  "my_application_activate self w0 =
     (case gtk_application_window_new w0 of
        (window, w1) \<Rightarrow>
          (let w2 = do_call (Gtk_widget_set_app_paintable window True) w1;
               w3 = (if rgba_visual w2 then do_call (Gtk_widget_set_visual window) w2 else w2)
           in (case primary_monitor w3 of
                 None \<Rightarrow> None
               | Some monitor \<Rightarrow>
                  (let monitor_geometry = geometry monitor;
                       scale = double_of_int (scale_factor monitor)
                   in (case int_of_double (60 * scale) of
                         None \<Rightarrow> None
                       | Some height \<Rightarrow>
                          (case int_of_double (4 * scale) of
                             None \<Rightarrow> None
                           | Some margin \<Rightarrow>
                              (let width = rect_width monitor_geometry;
                                   self' = self\<lparr>window_height := height,
                                               window_width := width,
                                               bottom_margin := margin\<rparr>;
                                   w4 = do_call (Gtk_window_set_default_size window width height) w3;
                                   w5 = do_call (Gtk_widget_set_size_request window width height) w4;
                                   w6 = do_call (Gtk_window_set_decorated window False) w5;
                                   w7 = do_call (Gtk_window_stick window) w6;
                                   w8 = do_call (Gtk_window_set_keep_above window True) w7;
                                   w9 = do_call (Gtk_window_set_type_hint_dock window) w8;
                                   w10 = do_call (Gtk_widget_realize window) w9;
                                   w11 = do_call (Gtk_window_move window 0
                                            (rect_height monitor_geometry - height - margin)) w10
                               in (case fl_view_new (dart_entrypoint_arguments self') w11 of
                                     (view, w12) \<Rightarrow>
                                       (let w13 = do_call (Fl_view_set_background_color view
                                                    ''rgba(0, 0, 0, 0)'') w12;
                                            w14 = do_call (Gtk_widget_show view) w13;
                                            w15 = gtk_container_add window view w14;
                                            w16 = g_signal_connect_swapped view ''first-frame''
                                                    First_frame_cb w15;
                                            w17 = do_call (Fl_register_plugins view) w16;
                                            w18 = do_call (Gtk_widget_grab_focus view) w17
                                        in Some (self', w18))))))))))"

subsection \<open>\<^verbatim>\<open>my_application_local_command_line\<close>\<close>

text \<open>
  \<^verbatim>\<open>*arguments + 1\<close> is the vector after its first element, which does not exist for
  an empty vector: the result is \<open>None\<close> there. \<^verbatim>\<open>g_application_activate\<close> runs the
  class's \<^verbatim>\<open>activate\<close>, which \<^verbatim>\<open>my_application_class_init\<close> sets to
  \<^verbatim>\<open>my_application_activate\<close>. The result is the returned \<^verbatim>\<open>gboolean\<close>, the value
  written to \<^verbatim>\<open>*exit_status\<close>, the application object and the world.
\<close>

definition g_application_register :: "world \<Rightarrow> bool \<times> world" where
  "g_application_register w = (register_ok w, do_call (G_application_register (register_ok w)) w)"

definition my_application_local_command_line ::
  "my_application \<Rightarrow> string list \<Rightarrow> world \<Rightarrow> (bool \<times> c_int \<times> my_application \<times> world) option" where
  "my_application_local_command_line self arguments w =
     (case arguments of
        [] \<Rightarrow> None
      | program # rest \<Rightarrow>
          let self1 = self\<lparr>dart_entrypoint_arguments := Some rest\<rparr>
          in (case g_application_register w of
                (registered, w1) \<Rightarrow>
                  if \<not> registered
                  then Some (True, 1, self1, do_call (G_warning ''Failed to register'') w1)
                  else (case my_application_activate self1 w1 of
                          None \<Rightarrow> None
                        | Some (self2, w2) \<Rightarrow> Some (True, 0, self2, w2))))"

subsection \<open>Emission of a signal\<close>

text \<open>
  Emitting a signal on a widget runs each handler connected to that signal of that
  widget, in the order of connection. The handler was connected swapped, with the
  application object as its data: the callback gets the object first and the widget
  second.
\<close>

definition run_handler ::
  "widget \<Rightarrow> string \<Rightarrow> my_application \<Rightarrow> widget \<times> string \<times> callback \<Rightarrow> world \<Rightarrow> world" where
  "run_handler inst signal self h w =
     (if fst h = inst \<and> fst (snd h) = signal
      then (case snd (snd h) of First_frame_cb \<Rightarrow> first_frame_cb self inst w)
      else w)"

definition g_signal_emit :: "widget \<Rightarrow> string \<Rightarrow> my_application \<Rightarrow> world \<Rightarrow> world" where
  "g_signal_emit inst signal self w = fold (run_handler inst signal self) (handlers w) w"

subsection \<open>Reading a log\<close>

text \<open>The calls made between two worlds, and the indices of the non-zero entries of an array.\<close>

definition new_calls :: "world \<Rightarrow> world \<Rightarrow> call list" where
  "new_calls w w' = drop (length (calls w)) (calls w')"

definition nonzero_indices :: "c_long list \<Rightarrow> nat list" where
  "nonzero_indices xs = filter (\<lambda>i. xs ! i \<noteq> 0) [0..<length xs]"



subsection \<open>Example inputs\<close>

text \<open>
  A new application object (\<^verbatim>\<open>g_object_new\<close> gives the instance zeroed, and
  \<^verbatim>\<open>my_application_init\<close> is empty), and a world with no widget yet whose primary
  monitor is 1920 by 1080 pixels with the given scale factor, on X11.
\<close>

abbreviation new_application :: my_application where
  "new_application \<equiv>
     \<lparr>dart_entrypoint_arguments = None, window_height = 0, window_width = 0, bottom_margin = 0\<rparr>"

abbreviation full_hd :: "c_int \<Rightarrow> world" where
  "full_hd s \<equiv>
     \<lparr>primary_monitor =
        Some \<lparr>geometry = \<lparr>rect_x = 0, rect_y = 0, rect_width = 1920, rect_height = 1080\<rparr>,
              scale_factor = s\<rparr>,
      rgba_visual = True, x11_window = True, register_ok = True, next_widget = 0,
      parent = Map.empty, handlers = [], xprops = Map.empty, calls = []\<rparr>"

text \<open>
  A world of the resolver with the given default theme, an empty heap, no icon info held,
  and a C library that can always allocate.
\<close>

abbreviation icon_env :: "gtk_icon_theme option \<Rightarrow> icon_world" where
  "icon_env theme \<equiv>
     \<lparr>default_theme = theme, alloc_ok = (\<lambda>h s. True), strings = [], infos = []\<rparr>"

section \<open>Properties of the icon path resolver\<close>

lemma heap_fresh_bound: "a \<in> fst ` set h \<Longrightarrow> a < heap_fresh h"
  unfolding heap_fresh_def by (induction h) (auto simp: less_Suc_eq_le le_max_iff_disj)

lemma heap_fresh_not_live: "heap_fresh h \<notin> fst ` set h"
  using heap_fresh_bound [of "heap_fresh h" h] by auto

lemma filter_heap_fresh: "filter (\<lambda>b. fst b \<noteq> heap_fresh h) h = h"
  using heap_fresh_not_live [of h] by (force simp: filter_id_conv)

lemma deref_fresh: "deref h (heap_fresh h) = None"
  unfolding deref_def using heap_fresh_not_live [of h] by (simp add: map_of_eq_None_iff)

lemma deref_filter: "a \<noteq> b \<Longrightarrow> deref (filter (\<lambda>c. fst c \<noteq> a) h) b = deref h b"
  unfolding deref_def by (induction h) auto

lemma deref_Cons: "deref ((a, s) # h) b = (if a = b then Some s else deref h b)"
  by (simp add: deref_def)

lemma deref_freed: "deref (filter (\<lambda>b. fst b \<noteq> a) h) a = None"
  by (auto simp: deref_def map_of_eq_None_iff)

lemma free_live:
  "a \<in> fst ` set h \<Longrightarrow> free h (Some a) = Some (filter (\<lambda>b. fst b \<noteq> a) h)"
  by (simp add: free_def)

text \<open>
  The net effect of \<^verbatim>\<open>get_icon_path\<close>. It never faults: the theme, the info and the
  file name are each tested for \<^verbatim>\<open>NULL\<close> before they are used, and the file name is
  copied while the info that owns it is still held. The reference taken by the lookup
  is given back on both paths that took it, so only the heap changes, and only when a
  path is returned.
\<close>

lemma get_icon_path_unfold:
  "get_icon_path w icon_name sz =
     Inr (case default_theme w of
        None \<Rightarrow> (None, w)
      | Some theme \<Rightarrow>
          (case theme icon_name sz of
             None \<Rightarrow> (None, w)
           | Some info \<Rightarrow>
               (case filename info of
                  None \<Rightarrow> (None, w)
                | Some path \<Rightarrow>
                    if alloc_ok w (strings w) path
                    then (Some (heap_fresh (strings w)),
                          w\<lparr>strings := (heap_fresh (strings w), path) # strings w\<rparr>)
                    else (None, w))))"
  by (simp add: get_icon_path_def gtk_icon_theme_get_default_def gtk_icon_theme_lookup_icon_def
      gtk_icon_info_get_filename_def g_object_unref_def strdup_def read_string_def
      filter_heap_fresh Let_def split: option.splits)

lemma get_icon_path_SomeD:
  assumes "get_icon_path w icon_name sz = Inr (Some p, w')"
  shows "\<exists>theme info path. default_theme w = Some theme \<and> theme icon_name sz = Some info \<and>
           filename info = Some path \<and> alloc_ok w (strings w) path \<and>
           p = heap_fresh (strings w) \<and>
           w' = w\<lparr>strings := (p, path) # strings w\<rparr>"
  using assms by (auto simp: get_icon_path_unfold split: option.splits if_splits)

subsection \<open>C5: the results of Resolve\<close>

text \<open>
  C5, as the code has it. \<^verbatim>\<open>get_icon_path\<close> returns \<^verbatim>\<open>NULL\<close> and leaves the world as
  it was when there is no default theme, when the theme has no match for the name at
  the size, also when the match has no file name (the source guards the copy with
  \<^verbatim>\<open>path ? strdup(path) : NULL\<close>), and also when \<^verbatim>\<open>strdup\<close> cannot allocate the copy
  (its \<^verbatim>\<open>NULL\<close> is returned as it is). On a match that has a file name, when the copy
  can be allocated, it returns a pointer that was not live before and now holds a copy
  of the file name, and every other pointer holds what it held. In every case the
  reference to the lookup handle has been given back: the process holds the icon infos
  it held before.
\<close>

theorem get_icon_path_result:
  "(default_theme w = None \<longrightarrow> get_icon_path w icon_name sz = Inr (None, w)) \<and>
   (\<forall>theme. default_theme w = Some theme \<and> theme icon_name sz = None \<longrightarrow>
      get_icon_path w icon_name sz = Inr (None, w)) \<and>
   (\<forall>theme info. default_theme w = Some theme \<and> theme icon_name sz = Some info \<and>
      filename info = None \<longrightarrow> get_icon_path w icon_name sz = Inr (None, w)) \<and>
   (\<forall>theme info path. default_theme w = Some theme \<and> theme icon_name sz = Some info \<and>
      filename info = Some path \<and> \<not> alloc_ok w (strings w) path \<longrightarrow>
      get_icon_path w icon_name sz = Inr (None, w)) \<and>
   (\<forall>theme info path. default_theme w = Some theme \<and> theme icon_name sz = Some info \<and>
      filename info = Some path \<and> alloc_ok w (strings w) path \<longrightarrow>
      (\<exists>a w'. get_icon_path w icon_name sz = Inr (Some a, w') \<and>
         deref (strings w) a = None \<and>
         deref (strings w') a = Some path \<and>
         (\<forall>b. b \<noteq> a \<longrightarrow> deref (strings w') b = deref (strings w) b) \<and>
         infos w' = infos w \<and>
         default_theme w' = default_theme w))"
  by (auto simp: get_icon_path_unfold deref_fresh deref_Cons)

text \<open>
  The theorem at four worlds: no theme; a theme with no icon; a theme with an icon
  file for every name where nothing can be allocated; and the same theme where
  allocation succeeds.
\<close>

theorem get_icon_path_result_witness:
  "get_icon_path (icon_env None) ''folder'' 48 = Inr (None, icon_env None) \<and>
   get_icon_path (icon_env (Some (\<lambda>n s. None))) ''folder'' 48 =
     Inr (None, icon_env (Some (\<lambda>n s. None))) \<and>
   get_icon_path
     ((icon_env (Some (\<lambda>n s. Some \<lparr>filename = Some ''/usr/share/icons/folder.png''\<rparr>)))
        \<lparr>alloc_ok := (\<lambda>h s. False)\<rparr>) ''folder'' 48 =
     Inr (None,
       (icon_env (Some (\<lambda>n s. Some \<lparr>filename = Some ''/usr/share/icons/folder.png''\<rparr>)))
        \<lparr>alloc_ok := (\<lambda>h s. False)\<rparr>) \<and>
   (\<exists>a w'. get_icon_path
       (icon_env (Some (\<lambda>n s. Some \<lparr>filename = Some ''/usr/share/icons/folder.png''\<rparr>)))
       ''folder'' 48 = Inr (Some a, w') \<and>
      deref (strings w') a = Some ''/usr/share/icons/folder.png'' \<and>
      infos w' = [])"
  using
    get_icon_path_result [of "icon_env None" "''folder''" 48]
    get_icon_path_result [of "icon_env (Some (\<lambda>n s. None))" "''folder''" 48]
    get_icon_path_result
      [of "(icon_env (Some (\<lambda>n s. Some \<lparr>filename = Some ''/usr/share/icons/folder.png''\<rparr>)))
             \<lparr>alloc_ok := (\<lambda>h s. False)\<rparr>" "''folder''" 48]
    get_icon_path_result
      [of "icon_env (Some (\<lambda>n s. Some \<lparr>filename = Some ''/usr/share/icons/folder.png''\<rparr>))"
          "''folder''" 48]
  by auto

text \<open>
  C5 as stated fails where the theme has a match that has no file name, and where it
  has a match with a file name and \<^verbatim>\<open>strdup\<close> cannot allocate: the result is
  \<^verbatim>\<open>NULL\<close>, not a copy of a path.
\<close>

theorem get_icon_path_match_without_copy:
  "get_icon_path (icon_env (Some (\<lambda>n s. Some \<lparr>filename = None\<rparr>))) ''folder'' 48 =
     Inr (None, icon_env (Some (\<lambda>n s. Some \<lparr>filename = None\<rparr>))) \<and>
   get_icon_path
     ((icon_env (Some (\<lambda>n s. Some \<lparr>filename = Some ''/usr/share/icons/folder.png''\<rparr>)))
        \<lparr>alloc_ok := (\<lambda>h s. False)\<rparr>) ''folder'' 48 =
     Inr (None,
       (icon_env (Some (\<lambda>n s. Some \<lparr>filename = Some ''/usr/share/icons/folder.png''\<rparr>)))
        \<lparr>alloc_ok := (\<lambda>h s. False)\<rparr>)"
  by (simp add: get_icon_path_def gtk_icon_theme_get_default_def gtk_icon_theme_lookup_icon_def
      gtk_icon_info_get_filename_def g_object_unref_def strdup_def read_string_def
      heap_fresh_def Let_def)

subsection \<open>C8: a result instead of a crash\<close>




subsection \<open>C9: two results are two copies\<close>

lemma two_results_independent:
  assumes "get_icon_path w icon_name sz = Inr (Some p1, w1)"
    and "get_icon_path w1 icon_name sz = Inr (Some p2, w2)"
  shows "p1 \<noteq> p2 \<and>
         deref (strings w2) p1 \<noteq> None \<and>
         deref (strings w2) p2 = deref (strings w2) p1 \<and>
         (\<exists>w3. free_icon_path w2 (Some p1) = Some w3 \<and>
            deref (strings w3) p1 = None \<and>
            deref (strings w3) p2 = deref (strings w2) p2) \<and>
         (\<exists>w3. free_icon_path w2 (Some p2) = Some w3 \<and>
            deref (strings w3) p2 = None \<and>
            deref (strings w3) p1 = deref (strings w2) p1)"
proof -
  from get_icon_path_SomeD [OF assms(1)] obtain theme info path where
    first: "default_theme w = Some theme" "theme icon_name sz = Some info"
      "filename info = Some path" "p1 = heap_fresh (strings w)"
      "w1 = w\<lparr>strings := (p1, path) # strings w\<rparr>"
    by blast
  from get_icon_path_SomeD [OF assms(2)] first have
    second: "p2 = heap_fresh ((p1, path) # strings w)"
      "strings w2 = (p2, path) # (p1, path) # strings w"
    by auto
  have "p1 < p2"
    unfolding second(1) by (rule heap_fresh_bound) simp
  then have ne: "p1 \<noteq> p2" by simp
  have live1: "p1 \<in> fst ` set (strings w2)" and live2: "p2 \<in> fst ` set (strings w2)"
    by (simp_all add: second(2))
  have "deref (strings w2) p1 = Some path" "deref (strings w2) p2 = Some path"
    using ne by (simp_all add: second(2) deref_Cons)
  moreover have "\<exists>w3. free_icon_path w2 (Some p1) = Some w3 \<and>
            deref (strings w3) p1 = None \<and>
            deref (strings w3) p2 = deref (strings w2) p2"
    using ne by (simp add: free_icon_path_def free_live [OF live1] deref_freed deref_filter)
  moreover have "\<exists>w3. free_icon_path w2 (Some p2) = Some w3 \<and>
            deref (strings w3) p2 = None \<and>
            deref (strings w3) p1 = deref (strings w2) p1"
    using ne by (simp add: free_icon_path_def free_live [OF live2] deref_freed deref_filter)
  ultimately show ?thesis using ne by simp
qed

lemma two_results_exist:
  assumes "default_theme w = Some theme" and "theme icon_name sz = Some info"
    and "filename info = Some path"
    and "alloc_ok w (strings w) path"
    and "alloc_ok w ((heap_fresh (strings w), path) # strings w) path"
  shows "\<exists>p1 w1 p2 w2.
           get_icon_path w icon_name sz = Inr (Some p1, w1) \<and>
           get_icon_path w1 icon_name sz = Inr (Some p2, w2) \<and>
           deref (strings w2) p1 = Some path \<and> deref (strings w2) p2 = Some path"
  using assms heap_fresh_not_live [of "(heap_fresh (strings w), path) # strings w"]
  by (simp add: get_icon_path_unfold deref_Cons)

text \<open>
  C9. Whenever two calls of \<^verbatim>\<open>get_icon_path\<close> with the same name and size, the second
  in the world the first left, both return a path, the two pointers differ and hold the
  same string, and either can be freed: the freed pointer is then dead and the other
  still holds its string. And two such calls do both return a path, each holding the
  icon's file name, whenever the theme has a match with a file name and both copies
  can be allocated.
\<close>

theorem get_icon_path_twice_independent:
  "(get_icon_path w icon_name sz = Inr (Some p1, w1) \<and>
    get_icon_path w1 icon_name sz = Inr (Some p2, w2) \<longrightarrow>
      p1 \<noteq> p2 \<and>
      deref (strings w2) p1 \<noteq> None \<and>
      deref (strings w2) p2 = deref (strings w2) p1 \<and>
      (\<exists>w3. free_icon_path w2 (Some p1) = Some w3 \<and>
         deref (strings w3) p1 = None \<and>
         deref (strings w3) p2 = deref (strings w2) p2) \<and>
      (\<exists>w3. free_icon_path w2 (Some p2) = Some w3 \<and>
         deref (strings w3) p2 = None \<and>
         deref (strings w3) p1 = deref (strings w2) p1)) \<and>
   (default_theme w = Some theme \<and> theme icon_name sz = Some info \<and>
    filename info = Some path \<and> alloc_ok w (strings w) path \<and>
    alloc_ok w ((heap_fresh (strings w), path) # strings w) path \<longrightarrow>
      (\<exists>q1 v1 q2 v2.
         get_icon_path w icon_name sz = Inr (Some q1, v1) \<and>
         get_icon_path v1 icon_name sz = Inr (Some q2, v2) \<and>
         deref (strings v2) q1 = Some path \<and> deref (strings v2) q2 = Some path))"
  using two_results_independent [of w icon_name sz p1 w1 p2 w2]
    two_results_exist [of w theme icon_name sz info path]
  by blast

text \<open>
  The theorem at two calls for \<^verbatim>\<open>folder\<close> at 48 pixels from an empty heap: both return
  a path, at different addresses, and after freeing the first the second still holds
  the path.
\<close>

theorem get_icon_path_twice_independent_witness:
  "\<exists>p1 w1 p2 w2 w3.
     get_icon_path
       (icon_env (Some (\<lambda>n s. Some \<lparr>filename = Some ''/usr/share/icons/folder.png''\<rparr>)))
       ''folder'' 48 = Inr (Some p1, w1) \<and>
     get_icon_path w1 ''folder'' 48 = Inr (Some p2, w2) \<and>
     p1 \<noteq> p2 \<and>
     deref (strings w2) p1 = Some ''/usr/share/icons/folder.png'' \<and>
     free_icon_path w2 (Some p1) = Some w3 \<and>
     deref (strings w3) p1 = None \<and>
     deref (strings w3) p2 = Some ''/usr/share/icons/folder.png''"
proof -
  let ?w = "icon_env (Some (\<lambda>n s. Some \<lparr>filename = Some ''/usr/share/icons/folder.png''\<rparr>))"
  have "\<exists>q1 v1 q2 v2.
         get_icon_path ?w ''folder'' 48 = Inr (Some q1, v1) \<and>
         get_icon_path v1 ''folder'' 48 = Inr (Some q2, v2) \<and>
         deref (strings v2) q1 = Some ''/usr/share/icons/folder.png'' \<and>
         deref (strings v2) q2 = Some ''/usr/share/icons/folder.png''"
    using get_icon_path_twice_independent
      [where w = ?w and icon_name = "''folder''" and sz = 48
         and theme = "\<lambda>n s. Some \<lparr>filename = Some ''/usr/share/icons/folder.png''\<rparr>"
         and info = "\<lparr>filename = Some ''/usr/share/icons/folder.png''\<rparr>"
         and path = "''/usr/share/icons/folder.png''"]
    by simp
  then obtain q1 v1 q2 v2 where
    r: "get_icon_path ?w ''folder'' 48 = Inr (Some q1, v1)"
       "get_icon_path v1 ''folder'' 48 = Inr (Some q2, v2)"
       "deref (strings v2) q1 = Some ''/usr/share/icons/folder.png''"
       "deref (strings v2) q2 = Some ''/usr/share/icons/folder.png''"
    by blast
  from get_icon_path_twice_independent
      [where w = ?w and icon_name = "''folder''" and sz = 48 and ?p1.0 = q1 and ?w1.0 = v1
         and ?p2.0 = q2 and ?w2.0 = v2] r
  have "q1 \<noteq> q2 \<and>
      (\<exists>w3. free_icon_path v2 (Some q1) = Some w3 \<and>
         deref (strings w3) q1 = None \<and>
         deref (strings w3) q2 = deref (strings v2) q2)"
    by blast
  with r show ?thesis by auto
qed

subsection \<open>C10: Release of an absent result\<close>

text \<open>
  C10. \<^verbatim>\<open>free_icon_path\<close> passes its argument to \<^verbatim>\<open>free\<close>; for \<^verbatim>\<open>NULL\<close> that does
  nothing, and the world is as it was.
\<close>

theorem free_icon_path_null: "free_icon_path w None = Some w"
  by (simp add: free_icon_path_def free_def)

section \<open>Properties of the window staging controller\<close>

subsection \<open>Arithmetic of \<^verbatim>\<open>int\<close>\<close>

lemma sint_c_int_of_int:
  "- (2 ^ 31) \<le> k \<Longrightarrow> k < 2 ^ 31 \<Longrightarrow> sint (word_of_int k :: c_int) = k"
  by (simp add: signed_take_bit_int_eq_self sint_sbintrunc')

lemma sint_c_int_times:
  assumes "- (2 ^ 31) \<le> k * sint s" "k * sint s < 2 ^ 31"
  shows "sint (word_of_int k * s :: c_int) = k * sint s"
proof -
  have "word_of_int k * s = (word_of_int (k * sint s) :: c_int)" by simp
  then show ?thesis using assms sint_c_int_of_int by metis
qed


lemma sint_strut_sum:
  assumes "- (2 ^ 31) \<le> sint a + sint b" "sint a + sint b < 2 ^ 31"
  shows "sint (scast (a + b :: c_int) :: c_long) = sint a + sint b"
proof -
  have "sint (a + b) = sint a + sint b"
    using assms by (simp add: sint_word_ariths signed_take_bit_int_eq_self)
  moreover have "sint (scast (a + b) :: c_long) = sint (a + b)"
    by (rule sint_up_scast) (simp add: is_up)
  ultimately show ?thesis by simp
qed

lemma int_of_double_times:
  "int_of_double (real_of_int k * double_of_int s) =
     (if - (2 ^ 31) \<le> k * sint s \<and> k * sint s < 2 ^ 31
      then Some (word_of_int (k * sint s)) else None)"
proof -
  have "real_of_int k * double_of_int s = real_of_int (k * sint s)"
    by (simp add: double_of_int_def)
  then show ?thesis
    unfolding int_of_double_def Let_def by (simp only: floor_of_int ceiling_of_int if_cancel)
qed

lemma int_of_double_60:
  "int_of_double (60 * double_of_int s) =
     (if - (2 ^ 31) \<le> 60 * sint s \<and> 60 * sint s < 2 ^ 31
      then Some (word_of_int (60 * sint s)) else None)"
  using int_of_double_times [of 60 s] by simp

lemma int_of_double_4:
  "int_of_double (4 * double_of_int s) =
     (if - (2 ^ 31) \<le> 4 * sint s \<and> 4 * sint s < 2 ^ 31
      then Some (word_of_int (4 * sint s)) else None)"
  using int_of_double_times [of 4 s] by simp

subsection \<open>What \<^verbatim>\<open>my_application_activate\<close> and \<^verbatim>\<open>first_frame_cb\<close> do\<close>

lemma my_application_activate_unfold:
  "my_application_activate self w =
     (case primary_monitor w of
        None \<Rightarrow> None
      | Some m \<Rightarrow>
          (case int_of_double (60 * double_of_int (scale_factor m)) of
             None \<Rightarrow> None
           | Some h \<Rightarrow>
               (case int_of_double (4 * double_of_int (scale_factor m)) of
                  None \<Rightarrow> None
                | Some b \<Rightarrow>
                    Some (self\<lparr>window_height := h, window_width := rect_width (geometry m),
                               bottom_margin := b\<rparr>,
                          w\<lparr>next_widget := Suc (Suc (next_widget w)),
                            parent := (parent w)(next_widget w := None,
                                         Suc (next_widget w) \<mapsto> next_widget w),
                            handlers := handlers w @
                              [(Suc (next_widget w), ''first-frame'', First_frame_cb)],
                            calls := calls w @
                              [Gtk_application_window_new (next_widget w),
                               Gtk_widget_set_app_paintable (next_widget w) True] @
                              (if rgba_visual w then [Gtk_widget_set_visual (next_widget w)] else []) @
                              [Gtk_window_set_default_size (next_widget w) (rect_width (geometry m)) h,
                               Gtk_widget_set_size_request (next_widget w) (rect_width (geometry m)) h,
                               Gtk_window_set_decorated (next_widget w) False,
                               Gtk_window_stick (next_widget w),
                               Gtk_window_set_keep_above (next_widget w) True,
                               Gtk_window_set_type_hint_dock (next_widget w),
                               Gtk_widget_realize (next_widget w),
                               Gtk_window_move (next_widget w) 0 (rect_height (geometry m) - h - b),
                               Fl_view_new (Suc (next_widget w)) (dart_entrypoint_arguments self),
                               Fl_view_set_background_color (Suc (next_widget w)) ''rgba(0, 0, 0, 0)'',
                               Gtk_widget_show (Suc (next_widget w)),
                               Gtk_container_add (next_widget w) (Suc (next_widget w)),
                               G_signal_connect_swapped (Suc (next_widget w)) ''first-frame'' First_frame_cb,
                               Fl_register_plugins (Suc (next_widget w)),
                               Gtk_widget_grab_focus (Suc (next_widget w))]\<rparr>))))"
  by (simp add: my_application_activate_def gtk_application_window_new_def new_widget_def
      do_call_def fl_view_new_def gtk_container_add_def g_signal_connect_swapped_def Let_def
      split: option.splits)

text \<open>
  Activation is defined exactly when there is a primary monitor whose scale factor
  times 60 is an \<^verbatim>\<open>int\<close>.
\<close>

lemma my_application_activate_Some_iff:
  "(\<exists>r. my_application_activate self w = Some r) \<longleftrightarrow>
     (\<exists>m. primary_monitor w = Some m \<and> - 35791394 \<le> sint (scale_factor m) \<and>
        sint (scale_factor m) \<le> 35791394)"
  by (auto simp: my_application_activate_unfold int_of_double_60 int_of_double_4
      split: option.splits)

lemma my_application_activate_SomeD:
  assumes "my_application_activate self w = Some (self', w')"
  shows "\<exists>m. primary_monitor w = Some m \<and>
     self' = self\<lparr>window_height := window_height self', window_width := rect_width (geometry m),
                  bottom_margin := bottom_margin self'\<rparr> \<and>
     next_widget w' = Suc (Suc (next_widget w)) \<and>
     parent w' = (parent w)(next_widget w := None, Suc (next_widget w) \<mapsto> next_widget w) \<and>
     handlers w' = handlers w @ [(Suc (next_widget w), ''first-frame'', First_frame_cb)] \<and>
     x11_window w' = x11_window w \<and>
     new_calls w w' =
       [Gtk_application_window_new (next_widget w),
        Gtk_widget_set_app_paintable (next_widget w) True] @
       (if rgba_visual w then [Gtk_widget_set_visual (next_widget w)] else []) @
       [Gtk_window_set_default_size (next_widget w) (rect_width (geometry m)) (window_height self'),
        Gtk_widget_set_size_request (next_widget w) (rect_width (geometry m)) (window_height self'),
        Gtk_window_set_decorated (next_widget w) False,
        Gtk_window_stick (next_widget w),
        Gtk_window_set_keep_above (next_widget w) True,
        Gtk_window_set_type_hint_dock (next_widget w),
        Gtk_widget_realize (next_widget w),
        Gtk_window_move (next_widget w) 0
          (rect_height (geometry m) - window_height self' - bottom_margin self'),
        Fl_view_new (Suc (next_widget w)) (dart_entrypoint_arguments self),
        Fl_view_set_background_color (Suc (next_widget w)) ''rgba(0, 0, 0, 0)'',
        Gtk_widget_show (Suc (next_widget w)),
        Gtk_container_add (next_widget w) (Suc (next_widget w)),
        G_signal_connect_swapped (Suc (next_widget w)) ''first-frame'' First_frame_cb,
        Fl_register_plugins (Suc (next_widget w)),
        Gtk_widget_grab_focus (Suc (next_widget w))]"
  using assms
  by (auto simp: my_application_activate_unfold new_calls_def split: option.splits)

lemma my_application_activate_fields:
  assumes "my_application_activate self w = Some (self', w')"
    and "primary_monitor w = Some m"
  shows "window_height self' = 60 * scale_factor m \<and>
         window_width self' = rect_width (geometry m) \<and>
         bottom_margin self' = 4 * scale_factor m"
  using assms
  by (auto simp: my_application_activate_unfold int_of_double_60 int_of_double_4
      split: option.splits if_splits)

lemma toplevel_after_activate:
  assumes "my_application_activate self w = Some (self', w')"
  shows "gtk_widget_get_toplevel w' (Suc (next_widget w)) = next_widget w"
  using my_application_activate_SomeD [OF assms]
  by (auto simp: gtk_widget_get_toplevel_def)

lemma first_frame_cb_unfold:
  "first_frame_cb self view w =
     (if x11_window w then
        w\<lparr>xprops := (xprops w)
             ((gtk_widget_get_toplevel w view, ''_NET_WM_STATE'') \<mapsto>
                Atoms [''_NET_WM_STATE_STICKY'', ''_NET_WM_STATE_ABOVE''],
              (gtk_widget_get_toplevel w view, ''_NET_WM_STRUT_PARTIAL'') \<mapsto>
                Cardinals (take 12 (strut self)),
              (gtk_widget_get_toplevel w view, ''_NET_WM_STRUT'') \<mapsto>
                Cardinals (take 4 (strut self))),
          calls := calls w @
            [Gtk_widget_show (gtk_widget_get_toplevel w view),
             XChangeProperty (gtk_widget_get_toplevel w view) ''_NET_WM_STATE'' ''ATOM'' 32
               (Atoms [''_NET_WM_STATE_STICKY'', ''_NET_WM_STATE_ABOVE'']),
             XChangeProperty (gtk_widget_get_toplevel w view) ''_NET_WM_STRUT_PARTIAL''
               ''CARDINAL'' 32 (Cardinals (take 12 (strut self))),
             XChangeProperty (gtk_widget_get_toplevel w view) ''_NET_WM_STRUT''
               ''CARDINAL'' 32 (Cardinals (take 4 (strut self))),
             XSetInputFocus_None, XFlush]\<rparr>
      else w\<lparr>calls := calls w @ [Gtk_widget_show (gtk_widget_get_toplevel w view)]\<rparr>)"
  by (simp add: first_frame_cb_def do_call_def xchange_property_def Let_def)

lemma strut_eq:
  "strut self =
     [0, 0, 0, scast (window_height self + bottom_margin self), 0, 0, 0, 0, 0, 0, 0,
      scast (window_width self)]"
  by (simp add: strut_def numeral_eq_Suc)

lemma nonzero_indices_12:
  "nonzero_indices [0, 0, 0, a, 0, 0, 0, 0, 0, 0, 0, b] =
     (if a = 0 then [] else [3]) @ (if b = 0 then [] else [11])"
  by (simp add: nonzero_indices_def upt_rec [of _ "numeral _"] upt_rec [of _ "Suc _"]
      numeral_eq_Suc)

subsection \<open>C3: the geometry computed by Activate\<close>

text \<open>
  C3, as the code has it. For a primary monitor whose scale factor \<open>s\<close> is at least 1
  and at most 35791394, the largest for which \<open>60 * s\<close> is an \<^verbatim>\<open>int\<close>, activation
  completes and the application object then holds \<open>window_height = 60 * s\<close>,
  \<open>window_width\<close> the monitor's width and \<open>bottom_margin = 4 * s\<close>; its argument
  vector is untouched. The products are whole numbers, so the truncation of the
  conversion to \<^verbatim>\<open>int\<close> changes nothing.
\<close>

theorem activate_geometry:
  assumes "primary_monitor w = Some m"
    and "1 \<le> sint (scale_factor m)" and "sint (scale_factor m) \<le> 35791394"
  shows "\<exists>self' w'. my_application_activate self w = Some (self', w') \<and>
           sint (window_height self') = 60 * sint (scale_factor m) \<and>
           window_width self' = rect_width (geometry m) \<and>
           sint (bottom_margin self') = 4 * sint (scale_factor m) \<and>
           dart_entrypoint_arguments self' = dart_entrypoint_arguments self"
  using assms sint_c_int_times [of 60 "scale_factor m"] sint_c_int_times [of 4 "scale_factor m"]
  by (simp add: my_application_activate_unfold int_of_double_60 int_of_double_4)

text \<open>The theorem at scale factor 2: a height of 120, a width of 1920, a margin of 8.\<close>

theorem activate_geometry_witness:
  "\<exists>self' w'.
     my_application_activate new_application (full_hd 2) = Some (self', w') \<and>
     sint (window_height self') = 120 \<and> window_width self' = 1920 \<and>
     sint (bottom_margin self') = 8"
  using activate_geometry
    [of "full_hd 2"
        "\<lparr>geometry = \<lparr>rect_x = 0, rect_y = 0, rect_width = 1920, rect_height = 1080\<rparr>,
          scale_factor = 2\<rparr>"
        new_application]
  by auto

text \<open>
  C3 as stated fails at the scale factor 35791395: \<open>60 * 35791395 = 2147483700\<close> is
  above the largest \<^verbatim>\<open>int\<close>, the conversion is undefined and no height of that value
  is stored.
\<close>

theorem activate_geometry_scale_too_large:
  "my_application_activate new_application (full_hd 35791395) = None"
  by (simp add: my_application_activate_unfold int_of_double_60)

subsection \<open>C4: the position of the window\<close>



subsection \<open>C6: the window is shown by the callback, not by Activate\<close>



subsection \<open>C1: the strut properties\<close>

text \<open>
  C1, as the code has it. Under X11 the callback shows the window, writes the two state
  atoms, writes the 12-element array as \<^verbatim>\<open>_NET_WM_STRUT_PARTIAL\<close> and its first 4
  elements as \<^verbatim>\<open>_NET_WM_STRUT\<close>, clears the input focus and flushes. The array is zero
  at every index but 3 and 11: index 3 holds \<open>window_height + bottom_margin\<close>, index 10
  holds the 0 assigned to it, and index 11 holds \<open>window_width\<close>. So the non-zero
  entries are at most two, at indices 3 and 11. The sum at index 3 is that of \<^verbatim>\<open>int\<close>;
  it is the sum of the integers whenever that sum is an \<^verbatim>\<open>int\<close>.
\<close>

theorem first_frame_cb_strut:
  assumes "x11_window w"
  shows "new_calls w (first_frame_cb self view w) =
           [Gtk_widget_show (gtk_widget_get_toplevel w view),
            XChangeProperty (gtk_widget_get_toplevel w view) ''_NET_WM_STATE'' ''ATOM'' 32
              (Atoms [''_NET_WM_STATE_STICKY'', ''_NET_WM_STATE_ABOVE'']),
            XChangeProperty (gtk_widget_get_toplevel w view) ''_NET_WM_STRUT_PARTIAL''
              ''CARDINAL'' 32
              (Cardinals [0, 0, 0, scast (window_height self + bottom_margin self),
                          0, 0, 0, 0, 0, 0, 0, scast (window_width self)]),
            XChangeProperty (gtk_widget_get_toplevel w view) ''_NET_WM_STRUT''
              ''CARDINAL'' 32
              (Cardinals [0, 0, 0, scast (window_height self + bottom_margin self)]),
            XSetInputFocus_None, XFlush] \<and>
         xprops (first_frame_cb self view w)
             (gtk_widget_get_toplevel w view, ''_NET_WM_STRUT_PARTIAL'') =
           Some (Cardinals (strut self)) \<and>
         xprops (first_frame_cb self view w)
             (gtk_widget_get_toplevel w view, ''_NET_WM_STRUT'') =
           Some (Cardinals (take 4 (strut self))) \<and>
         strut self =
           [0, 0, 0, scast (window_height self + bottom_margin self),
            0, 0, 0, 0, 0, 0, 0, scast (window_width self)] \<and>
         set (nonzero_indices (strut self)) \<subseteq> {3, 11} \<and>
         sint (strut self ! 11) = sint (window_width self) \<and>
         (- (2 ^ 31) \<le> sint (window_height self) + sint (bottom_margin self) \<and>
          sint (window_height self) + sint (bottom_margin self) < 2 ^ 31 \<longrightarrow>
          sint (strut self ! 3) = sint (window_height self) + sint (bottom_margin self))"
proof -
  have "sint (scast (window_width self) :: c_long) = sint (window_width self)"
    by (rule sint_up_scast) (simp add: is_up)
  then show ?thesis
    using assms
    by (simp add: first_frame_cb_unfold new_calls_def strut_eq nonzero_indices_12
        sint_strut_sum)
qed

text \<open>
  The theorem at the callback after an activation at scale factor 2: the bottom
  reservation is \<open>120 + 8\<close> and the region ends at \<open>x = 1920\<close>.
\<close>

theorem first_frame_cb_strut_witness:
  "\<exists>self' w'.
     my_application_activate new_application (full_hd 2) = Some (self', w') \<and>
     xprops (first_frame_cb self' (Suc 0) w') (0, ''_NET_WM_STRUT_PARTIAL'') =
       Some (Cardinals [0, 0, 0, 128, 0, 0, 0, 0, 0, 0, 0, 1920]) \<and>
     xprops (first_frame_cb self' (Suc 0) w') (0, ''_NET_WM_STRUT'') =
       Some (Cardinals [0, 0, 0, 128])"
proof -
  have "\<exists>r. my_application_activate new_application (full_hd 2) = Some r"
    unfolding my_application_activate_Some_iff by simp
  then obtain self' w' where
    act: "my_application_activate new_application (full_hd 2) = Some (self', w')"
    by auto
  have mon: "primary_monitor (full_hd 2) =
      Some \<lparr>geometry = \<lparr>rect_x = 0, rect_y = 0, rect_width = 1920, rect_height = 1080\<rparr>,
            scale_factor = 2\<rparr>"
    by simp
  have x11: "x11_window w'"
    using my_application_activate_SomeD [OF act] by simp
  show ?thesis
    using first_frame_cb_strut [OF x11, of self' "Suc 0"] toplevel_after_activate [OF act]
      my_application_activate_fields [OF act mon] act
    by simp
qed

text \<open>
  C1 as stated fails at every geometry: index 10 is zero, so the array never has three
  non-zero entries. After an activation at scale factor 1 the non-zero entries of the
  array written are the two at indices 3 and 11.
\<close>

theorem strut_nonzero_entries_are_two:
  "\<exists>self' w'.
     my_application_activate new_application (full_hd 1) = Some (self', w') \<and>
     xprops (first_frame_cb self' (Suc 0) w') (0, ''_NET_WM_STRUT_PARTIAL'') =
       Some (Cardinals [0, 0, 0, 64, 0, 0, 0, 0, 0, 0, 0, 1920]) \<and>
     nonzero_indices [0, 0, 0, 64, 0, 0, 0, 0, 0, 0, 0, 1920] = [3, 11] \<and>
     length (nonzero_indices [0, 0, 0, 64, 0, 0, 0, 0, 0, 0, 0, 1920]) \<noteq> 3"
proof -
  have "\<exists>r. my_application_activate new_application (full_hd 1) = Some r"
    unfolding my_application_activate_Some_iff by simp
  then obtain self' w' where
    act: "my_application_activate new_application (full_hd 1) = Some (self', w')"
    by auto
  have mon: "primary_monitor (full_hd 1) =
      Some \<lparr>geometry = \<lparr>rect_x = 0, rect_y = 0, rect_width = 1920, rect_height = 1080\<rparr>,
            scale_factor = 1\<rparr>"
    by simp
  have x11: "x11_window w'"
    using my_application_activate_SomeD [OF act] by simp
  show ?thesis
    using x11 toplevel_after_activate [OF act] my_application_activate_fields [OF act mon] act
    by (simp add: first_frame_cb_unfold strut_eq nonzero_indices_12)
qed

subsection \<open>C2: the callback and the emissions of the signal\<close>

lemma first_frame_cb_frame:
  "handlers (first_frame_cb self v u) = handlers u"
  "parent (first_frame_cb self v u) = parent u"
  "next_widget (first_frame_cb self v u) = next_widget u"
  "x11_window (first_frame_cb self v u) = x11_window u"
  by (simp_all add: first_frame_cb_unfold)

lemma first_frame_cb_toplevel:
  "gtk_widget_get_toplevel (first_frame_cb self v u) x = gtk_widget_get_toplevel u x"
  by (simp add: gtk_widget_get_toplevel_def first_frame_cb_frame)

lemma first_frame_cb_count_show:
  "count_list (calls (first_frame_cb self v u)) (Gtk_widget_show (gtk_widget_get_toplevel u v)) =
     Suc (count_list (calls u) (Gtk_widget_show (gtk_widget_get_toplevel u v)))"
  by (simp add: first_frame_cb_unfold)

lemma fold_run_handler_other:
  "\<forall>h \<in> set hs. fst h \<noteq> v \<Longrightarrow> fold (run_handler v signal self) hs u = u"
  by (induction hs arbitrary: u) (simp_all add: run_handler_def)

lemma g_signal_emit_single:
  assumes "handlers u = hs @ [(v, signal, First_frame_cb)]"
    and "\<forall>h \<in> set hs. fst h \<noteq> v"
  shows "g_signal_emit v signal self u = first_frame_cb self v u"
  using assms by (simp add: g_signal_emit_def fold_run_handler_other run_handler_def)

text \<open>
  After an activation, every emission of the view's signal runs the callback once: the
  handler is still connected, the view's toplevel is still the window, and the window
  has been shown once more.
\<close>

lemma emissions_after_activate:
  assumes act: "my_application_activate self w = Some (self', w')"
    and old: "\<forall>h \<in> set (handlers w). fst h < next_widget w"
  shows "handlers (((g_signal_emit (Suc (next_widget w)) ''first-frame'' self') ^^ n) w') = handlers w' \<and>
         gtk_widget_get_toplevel
           (((g_signal_emit (Suc (next_widget w)) ''first-frame'' self') ^^ n) w')
           (Suc (next_widget w)) = next_widget w \<and>
         count_list
           (calls (((g_signal_emit (Suc (next_widget w)) ''first-frame'' self') ^^ n) w'))
           (Gtk_widget_show (next_widget w)) =
         count_list (calls w') (Gtk_widget_show (next_widget w)) + n"
proof (induction n)
  case 0
  show ?case using toplevel_after_activate [OF act] by simp
next
  case (Suc n)
  let ?u = "((g_signal_emit (Suc (next_widget w)) ''first-frame'' self') ^^ n) w'"
  from my_application_activate_SomeD [OF act]
  have hs: "handlers w' = handlers w @ [(Suc (next_widget w), ''first-frame'', First_frame_cb)]"
    by blast
  have other: "\<forall>h \<in> set (handlers w). fst h \<noteq> Suc (next_widget w)"
    using old by fastforce
  have step: "g_signal_emit (Suc (next_widget w)) ''first-frame'' self' ?u =
      first_frame_cb self' (Suc (next_widget w)) ?u"
    using Suc.IH hs other by (intro g_signal_emit_single [of _ "handlers w"]) simp_all
  show ?case
    using Suc.IH first_frame_cb_count_show [of self' "Suc (next_widget w)" ?u]
    by (simp add: step first_frame_cb_frame first_frame_cb_toplevel)
qed

lemma activate_count_show:
  assumes "my_application_activate self w = Some (self', w')"
  shows "count_list (calls w') (Gtk_widget_show (next_widget w)) =
         count_list (calls w) (Gtk_widget_show (next_widget w))"
  using assms by (auto simp: my_application_activate_unfold split: option.splits)

text \<open>
  C2, as the code has it. Activation connects \<^verbatim>\<open>first_frame_cb\<close> to the view's
  \<^verbatim>\<open>first-frame\<close> signal once, with \<^verbatim>\<open>g_signal_connect_swapped\<close>, and nothing
  disconnects it. In a world whose handlers belong to widgets that exist, \<open>n\<close> emissions
  of the signal after the activation run the callback \<open>n\<close> times: the window has been
  shown \<open>n\<close> times more than before the activation.
\<close>

theorem first_frame_cb_runs_per_emission:
  assumes "my_application_activate self w = Some (self', w')"
    and "\<forall>h \<in> set (handlers w). fst h < next_widget w"
  shows "count_list
           (calls (((g_signal_emit (Suc (next_widget w)) ''first-frame'' self') ^^ n) w'))
           (Gtk_widget_show (next_widget w)) =
         count_list (calls w) (Gtk_widget_show (next_widget w)) + n"
  using emissions_after_activate [OF assms, of n] activate_count_show [OF assms(1)] by simp

text \<open>The theorem at one emission after an activation at scale factor 1: one run.\<close>

theorem first_frame_cb_runs_per_emission_witness:
  "\<exists>self' w'.
     my_application_activate new_application (full_hd 1) = Some (self', w') \<and>
     count_list (calls (g_signal_emit (Suc 0) ''first-frame'' self' w')) (Gtk_widget_show 0) = 1"
proof -
  have "\<exists>r. my_application_activate new_application (full_hd 1) = Some r"
    unfolding my_application_activate_Some_iff by simp
  then obtain self' w' where
    act: "my_application_activate new_application (full_hd 1) = Some (self', w')"
    by auto
  have old: "\<forall>h \<in> set (handlers (full_hd 1)). fst h < next_widget (full_hd 1)"
    by simp
  show ?thesis
    using first_frame_cb_runs_per_emission [OF act old, of 1] act by simp
qed

text \<open>
  C2 as stated fails when the signal is emitted twice: the callback runs twice, and the
  window is shown twice.
\<close>

theorem first_frame_cb_runs_twice:
  "\<exists>self' w'.
     my_application_activate new_application (full_hd 1) = Some (self', w') \<and>
     count_list
       (calls (g_signal_emit (Suc 0) ''first-frame'' self'
                 (g_signal_emit (Suc 0) ''first-frame'' self' w')))
       (Gtk_widget_show 0) = 2"
proof -
  have "\<exists>r. my_application_activate new_application (full_hd 1) = Some r"
    unfolding my_application_activate_Some_iff by simp
  then obtain self' w' where
    act: "my_application_activate new_application (full_hd 1) = Some (self', w')"
    by auto
  have old: "\<forall>h \<in> set (handlers (full_hd 1)). fst h < next_widget (full_hd 1)"
    by simp
  show ?thesis
    using emissions_after_activate [OF act old, of "Suc (Suc 0)"]
      activate_count_show [OF act] act
    by simp
qed

subsection \<open>C7: the command-line hook\<close>

text \<open>
  C7. For an argument vector that has a program name, the hook stores the arguments
  after it on the application object and registers the application. When registering
  fails, it returns \<^verbatim>\<open>TRUE\<close> with exit status 1 after a warning; no widget has been
  created and no handler connected, so activation has not run. When registering
  succeeds (and activation is defined: a primary monitor whose scale factor times 60 is
  an \<^verbatim>\<open>int\<close>), it returns \<^verbatim>\<open>TRUE\<close> with exit status 0, and the object and world are
  those that activation of the object with the stored arguments gives: the window is
  created right after registering and the view gets the stored arguments.
\<close>

theorem local_command_line_exit_status:
  "(\<not> register_ok w \<longrightarrow>
      (\<exists>w'. my_application_local_command_line self (program # rest) w =
               Some (True, 1, self\<lparr>dart_entrypoint_arguments := Some rest\<rparr>, w') \<and>
         new_calls w w' = [G_application_register False, G_warning ''Failed to register''] \<and>
         next_widget w' = next_widget w \<and> handlers w' = handlers w)) \<and>
   (register_ok w \<and> primary_monitor w = Some m \<and>
    - 35791394 \<le> sint (scale_factor m) \<and> sint (scale_factor m) \<le> 35791394 \<longrightarrow>
      (\<exists>self' w'. my_application_local_command_line self (program # rest) w =
               Some (True, 0, self', w') \<and>
         my_application_activate (self\<lparr>dart_entrypoint_arguments := Some rest\<rparr>)
             (do_call (G_application_register True) w) = Some (self', w') \<and>
         dart_entrypoint_arguments self' = Some rest \<and>
         take 2 (new_calls w w') =
           [G_application_register True, Gtk_application_window_new (next_widget w)] \<and>
         Fl_view_new (Suc (next_widget w)) (Some rest) \<in> set (new_calls w w')))"
  by (auto simp: my_application_local_command_line_def g_application_register_def
      my_application_activate_unfold int_of_double_60 int_of_double_4 do_call_def
      new_calls_def Let_def)

text \<open>
  The theorem at the arguments \<^verbatim>\<open>dock --verbose\<close>, where registering fails and where
  it succeeds.
\<close>

theorem local_command_line_exit_status_witness:
  "(\<exists>w'. my_application_local_command_line new_application [''dock'', ''--verbose'']
            ((full_hd 1)\<lparr>register_ok := False\<rparr>) =
          Some (True, 1, new_application\<lparr>dart_entrypoint_arguments := Some [''--verbose'']\<rparr>, w') \<and>
          next_widget w' = 0) \<and>
   (\<exists>self' w'. my_application_local_command_line new_application [''dock'', ''--verbose'']
            (full_hd 1) = Some (True, 0, self', w') \<and>
          dart_entrypoint_arguments self' = Some [''--verbose''] \<and>
          Fl_view_new (Suc 0) (Some [''--verbose'']) \<in> set (new_calls (full_hd 1) w'))"
  using
    local_command_line_exit_status
      [where w = "(full_hd 1)\<lparr>register_ok := False\<rparr>" and self = new_application
         and program = "''dock''" and rest = "[''--verbose'']"]
    local_command_line_exit_status
      [where w = "full_hd 1" and self = new_application
         and program = "''dock''" and rest = "[''--verbose'']"
         and m = "\<lparr>geometry = \<lparr>rect_x = 0, rect_y = 0, rect_width = 1920,
             rect_height = 1080\<rparr>, scale_factor = 1\<rparr>"]
  by auto

end
